theory Spec2Isabelle
  imports Main "HOL-Library.Sublist"
begin

section \<open>Python strings\<close>

text \<open>
  A Python \<open>str\<close> is modelled as a \<open>string\<close> of ASCII characters. The string
  methods below are the ones the three scripts call, restricted to ASCII text: a
  character outside ASCII is neither whitespace, nor a letter, nor a digit here.
\<close>

type_synonym row = "string list"

text \<open>The characters \<open>str.strip()\<close> removes: \<open>str.isspace\<close> on ASCII.\<close>

definition str_isspace :: "char \<Rightarrow> bool" where
  "str_isspace c = (c \<in> set [CHR 0x09, CHR 0x0A, CHR 0x0B, CHR 0x0C, CHR 0x0D,
                               CHR 0x1C, CHR 0x1D, CHR 0x1E, CHR 0x1F, CHR 0x20])"

text \<open>
  The characters \<open>int()\<close> skips around the number of an ASCII string: the C
  locale's white space, which leaves out the four separators \<open>0x1C\<close> to \<open>0x1F\<close>.
\<close>

definition int_isspace :: "char \<Rightarrow> bool" where
  "int_isspace c = (c \<in> set [CHR 0x09, CHR 0x0A, CHR 0x0B, CHR 0x0C, CHR 0x0D, CHR 0x20])"

definition py_strip :: "string \<Rightarrow> string" where
  "py_strip s = rev (dropWhile str_isspace (rev (dropWhile str_isspace s)))"

definition ascii_lowercase :: string where
  "ascii_lowercase = ''abcdefghijklmnopqrstuvwxyz''"

definition ascii_uppercase :: string where
  "ascii_uppercase = ''ABCDEFGHIJKLMNOPQRSTUVWXYZ''"

definition upper_char :: "char \<Rightarrow> char" where
  "upper_char c = (case map_of (zip ascii_lowercase ascii_uppercase) c of
                     Some u \<Rightarrow> u | None \<Rightarrow> c)"

definition lower_char :: "char \<Rightarrow> char" where
  "lower_char c = (case map_of (zip ascii_uppercase ascii_lowercase) c of
                     Some l \<Rightarrow> l | None \<Rightarrow> c)"

definition py_upper :: "string \<Rightarrow> string" where
  "py_upper s = map upper_char s"

definition py_lower :: "string \<Rightarrow> string" where
  "py_lower s = map lower_char s"

text \<open>
  Two characters that are the same up to the case of a letter, by the two tables above.
  It is used to state properties, not by the model of the scripts.
\<close>

definition same_letter :: "char \<Rightarrow> char \<Rightarrow> bool" where
  "same_letter a b =
     (a = b \<or> (a, b) \<in> set (zip ascii_lowercase ascii_uppercase) \<or>
               (b, a) \<in> set (zip ascii_lowercase ascii_uppercase))"

text \<open>\<open>s.isalpha()\<close>: at least one character, and letters only.\<close>

definition py_isalpha :: "string \<Rightarrow> bool" where
  "py_isalpha s = (s \<noteq> [] \<and> list_all (\<lambda>c. c \<in> set ascii_lowercase \<or> c \<in> set ascii_uppercase) s)"

text \<open>\<open>s.startswith(p)\<close> and \<open>sub in s\<close>.\<close>

definition py_startswith :: "string \<Rightarrow> string \<Rightarrow> bool" where
  "py_startswith s p = prefix p s"

definition py_in :: "string \<Rightarrow> string \<Rightarrow> bool" where
  "py_in sub s = sublist sub s"

text \<open>
  \<open>s.replace(old, new)\<close> for a non-empty \<open>old\<close>: the occurrences are replaced
  from the left, without overlap. (The only call of the scripts passes the literal
  \<open>"Americas"\<close>; Python's insertion between all characters for an empty \<open>old\<close> is
  not modelled.)
\<close>

function py_replace :: "string \<Rightarrow> string \<Rightarrow> string \<Rightarrow> string" where
  "py_replace old new [] = []"
| "py_replace old new (c # cs) =
     (if old \<noteq> [] \<and> prefix old (c # cs)
      then new @ py_replace old new (drop (length old) (c # cs))
      else c # py_replace old new cs)"
  by pat_completeness auto
termination
  by (relation "measure (\<lambda>(old, new, s). length s)") auto

subsection \<open>\<open>int(s)\<close> on a string\<close>

text \<open>
  \<open>int(s)\<close> in base ten: white space around the number is skipped, one sign may
  come first, and the digits may be grouped by single underscores, each between two
  digits. Anything else raises \<open>ValueError\<close>, which is \<open>None\<close> here. (The
  interpreter's limit on the number of digits, another \<open>ValueError\<close>, is a setting of
  the environment and is left out.)
\<close>

definition digit_val :: "char \<Rightarrow> nat option" where
  "digit_val c = map_of (zip ''0123456789'' [0, 1, 2, 3, 4, 5, 6, 7, 8, 9]) c"

fun digits_acc :: "nat \<Rightarrow> string \<Rightarrow> nat option" where
  "digits_acc acc [] = Some acc"
| "digits_acc acc (c # cs) =
     (case digit_val c of
        Some d \<Rightarrow> digits_acc (10 * acc + d) cs
      | None \<Rightarrow>
          if c = CHR ''_'' then
            (case cs of
               [] \<Rightarrow> None
             | d # _ \<Rightarrow> if digit_val d = None then None else digits_acc acc cs)
          else None)"

definition digits_value :: "string \<Rightarrow> nat option" where
  "digits_value s =
     (case s of
        [] \<Rightarrow> None
      | c # _ \<Rightarrow> if digit_val c = None then None else digits_acc 0 s)"

definition py_int :: "string \<Rightarrow> int option" where
  "py_int s =
     (let t = dropWhile int_isspace s;
          neg = (case t of [] \<Rightarrow> False | c # _ \<Rightarrow> c = CHR ''-'');
          u = (case t of [] \<Rightarrow> [] | c # r \<Rightarrow> if c = CHR ''-'' \<or> c = CHR ''+'' then r else t);
          body = rev (dropWhile int_isspace (rev u))
      in case digits_value body of
           None \<Rightarrow> None
         | Some n \<Rightarrow> Some (if neg then - int n else int n))"

text \<open>\<open>xs.index(x)\<close>: the first position of \<open>x\<close>, \<open>None\<close> for \<open>ValueError\<close>.\<close>

fun index_of :: "'a \<Rightarrow> 'a list \<Rightarrow> nat option" where
  "index_of x [] = None"
| "index_of x (y # ys) = (if x = y then Some 0 else map_option Suc (index_of x ys))"

section \<open>Exceptions and outcomes\<close>

datatype py_error =
    FileNotFoundError
  | StopIteration
  | NoYearColumn
  | IndexError
  | ValueError
  | KeyError
  | TypeError

datatype outcome = Completed | Raised py_error

section \<open>Year-Filter: \<open>removeYearsB41990.py\<close>\<close>

text \<open>
  A CSV file is the list of records that \<open>csv.reader\<close> yields from it and that
  \<open>csv.writer\<close> writes to it, header first; the layer of quoting and line ends is
  the library's. The script fixes the threshold at 1990; the loop is modelled for
  any threshold \<open>thr\<close>, and \<open>year_filter_script\<close> is the script itself.
\<close>

definition yf_input_file :: string where
  "yf_input_file = ''FIT3179/data/forest-area-as-share-of-land-area.csv''"

definition yf_output_file :: string where
  "yf_output_file = ''FIT3179/data/forest_area_from_1990.csv''"

text \<open>
  The loop over the data rows, with the rows written so far. \<open>row[year_index]\<close>
  raises \<open>IndexError\<close> on a row that is too short, which the \<open>except ValueError\<close>
  does not catch.
\<close>

fun filter_loop :: "int \<Rightarrow> nat \<Rightarrow> row list \<Rightarrow> row list \<Rightarrow> row list \<times> outcome" where
  "filter_loop thr year_index [] out = (out, Completed)"
| "filter_loop thr year_index (r # rest) out =
     (if year_index < length r then
        (case py_int (r ! year_index) of
           None \<Rightarrow> filter_loop thr year_index rest out
         | Some y \<Rightarrow>
             if y \<ge> thr then filter_loop thr year_index rest (out @ [r])
             else filter_loop thr year_index rest out)
      else (out, Raised IndexError))"

text \<open>
  The body of the \<open>with\<close> block, from the records of the input file to the records
  written to the output file and how the run ended. The header is written before the
  \<open>Year\<close> column is looked for.
\<close>

definition year_filter :: "int \<Rightarrow> row list \<Rightarrow> row list \<times> outcome" where
  "year_filter thr input =
     (case input of
        [] \<Rightarrow> ([], Raised StopIteration)
      | header # rows \<Rightarrow>
          (case index_of ''Year'' header of
             None \<Rightarrow> ([header], Raised NoYearColumn)
           | Some year_index \<Rightarrow> filter_loop thr year_index rows [header]))"

text \<open>
  The script on a file system, a map from paths to files. The input file is opened
  first; when it is missing nothing is written. The output file is created or
  truncated when it is opened.
\<close>

type_synonym filesystem = "string \<rightharpoonup> row list"

definition run_year_filter :: "int \<Rightarrow> filesystem \<Rightarrow> filesystem \<times> outcome" where
  "run_year_filter thr fs =
     (case fs yf_input_file of
        None \<Rightarrow> (fs, Raised FileNotFoundError)
      | Some input \<Rightarrow>
          (fs(yf_output_file \<mapsto> fst (year_filter thr input)), snd (year_filter thr input)))"

definition year_filter_script :: "filesystem \<Rightarrow> filesystem \<times> outcome" where
  "year_filter_script = run_year_filter 1990"

section \<open>Python dicts\<close>

text \<open>
  A Python dict as the list of its items in insertion order. Assigning to a key that
  is present replaces its value in place; a new key goes to the end.
\<close>

type_synonym ('k, 'v) dict = "('k \<times> 'v) list"

fun dict_set :: "('k, 'v) dict \<Rightarrow> 'k \<Rightarrow> 'v \<Rightarrow> ('k, 'v) dict" where
  "dict_set [] k v = [(k, v)]"
| "dict_set ((k', v') # d) k v =
     (if k' = k then (k, v) # d else (k', v') # dict_set d k v)"

definition dict_get :: "('k, 'v) dict \<Rightarrow> 'k \<Rightarrow> 'v option" where
  "dict_get d k = map_of d k"

text \<open>\<open>dict(pairs)\<close>: the pairs are assigned one after the other.\<close>

definition dict_of :: "('k \<times> 'v) list \<Rightarrow> ('k, 'v) dict" where
  "dict_of pairs = foldl (\<lambda>d (k, v). dict_set d k v) [] pairs"

section \<open>Year-Splitter: \<open>Project 2/split_deforestation_by_year.py\<close>\<close>

definition years :: "int list" where
  "years = [1990, 2000, 2010, 2015]"

text \<open>
  The dict that \<open>csv.DictReader\<close> makes of a record: \<open>dict(zip(fieldnames,
  row))\<close>. A record shorter than the header then gets \<open>None\<close> (the default
  \<open>restval\<close>) under the field names it does not reach; the surplus cells of a
  longer one are a list under the key \<open>None\<close> (the default \<open>restkey\<close>), which
  is the field \<open>restkey\<close> here.
\<close>

record rowdict =
  named :: "(string, string option) dict"
  restkey :: "string list option"

definition dict_reader_row :: "row \<Rightarrow> row \<Rightarrow> rowdict" where
  "dict_reader_row fieldnames r =
     (let d = dict_of (zip fieldnames (map Some r));
          lf = length fieldnames;
          lr = length r
      in if lf < lr then \<lparr>named = d, restkey = Some (drop lf r)\<rparr>
         else if lf > lr then
           \<lparr>named = foldl (\<lambda>d key. dict_set d key None) d (drop lr fieldnames),
            restkey = None\<rparr>
         else \<lparr>named = d, restkey = None\<rparr>)"

text \<open>
  \<open>DictWriter._dict_to_list\<close> with the default \<open>extrasaction='raise'\<close>: a key
  that is no field name raises \<open>ValueError\<close> (\<open>None\<close> here); otherwise the cells
  are read in the order of the field names, and \<open>csv.writer\<close> writes \<open>None\<close> as
  the empty string.
\<close>

definition dict_to_list :: "row \<Rightarrow> rowdict \<Rightarrow> row option" where
  "dict_to_list fieldnames d =
     (if restkey d \<noteq> None \<or> list_ex (\<lambda>k. k \<notin> set fieldnames) (map fst (named d))
      then None
      else Some (map (\<lambda>key. case dict_get (named d) key of
                               None \<Rightarrow> []
                             | Some None \<Rightarrow> []
                             | Some (Some s) \<Rightarrow> s) fieldnames))"

text \<open>The output files by year: the records written to each so far.\<close>

type_synonym outfiles = "int \<rightharpoonup> row list"

text \<open>
  The loop that opens one output file per year and writes the header to it.
  \<open>reader.fieldnames\<close> is \<open>None\<close> for an input file without a first record; then
  \<open>writeheader\<close> raises \<open>TypeError\<close>, after the file has been created.
\<close>

fun setup_writers :: "row option \<Rightarrow> int list \<Rightarrow> outfiles \<Rightarrow> outfiles \<times> outcome" where
  "setup_writers fieldnames [] files = (files, Completed)"
| "setup_writers fieldnames (year # later) files =
     (case fieldnames of
        None \<Rightarrow> (files(year \<mapsto> []), Raised TypeError)
      | Some header \<Rightarrow> setup_writers fieldnames later (files(year \<mapsto> [header])))"

text \<open>
  The loop over the rows. Nothing catches what \<open>row['Year']\<close>, \<open>int\<close> or
  \<open>writerow\<close> raise, so the run ends at the first row that makes one of them raise.
\<close>

fun split_loop :: "row \<Rightarrow> row list \<Rightarrow> outfiles \<Rightarrow> outfiles \<times> outcome" where
  "split_loop fieldnames [] files = (files, Completed)"
| "split_loop fieldnames (r # rs) files =
     (case dict_get (named (dict_reader_row fieldnames r)) ''Year'' of
        None \<Rightarrow> (files, Raised KeyError)
      | Some None \<Rightarrow> (files, Raised TypeError)
      | Some (Some s) \<Rightarrow>
          (case py_int s of
             None \<Rightarrow> (files, Raised ValueError)
           | Some year_val \<Rightarrow>
               if year_val \<in> set years then
                 (case files year_val of
                    None \<Rightarrow> (files, Raised KeyError)
                  | Some written \<Rightarrow>
                      (case dict_to_list fieldnames (dict_reader_row fieldnames r) of
                         None \<Rightarrow> (files, Raised ValueError)
                       | Some out_row \<Rightarrow>
                           split_loop fieldnames rs (files(year_val \<mapsto> written @ [out_row]))))
               else split_loop fieldnames rs files))"

text \<open>
  The script, from the records of the input file. \<open>DictReader\<close> takes the first
  record as the field names and passes over empty records (blank lines) after it.
\<close>

definition year_splitter :: "row list \<Rightarrow> outfiles \<times> outcome" where
  "year_splitter input =
     (case input of
        [] \<Rightarrow> setup_writers None years Map.empty
      | header # rows \<Rightarrow>
          (case setup_writers (Some header) years Map.empty of
             (files, Raised e) \<Rightarrow> (files, Raised e)
           | (files, Completed) \<Rightarrow> split_loop header (filter (\<lambda>r. r \<noteq> []) rows) files))"

text \<open>The year a row has for the script: its \<open>Year\<close> cell, read as the loop reads it.\<close>

definition row_year :: "row \<Rightarrow> row \<Rightarrow> int option" where
  "row_year fieldnames r =
     (case dict_get (named (dict_reader_row fieldnames r)) ''Year'' of
        Some (Some s) \<Rightarrow> py_int s
      | _ \<Rightarrow> None)"

text \<open>The number of data rows of an output file: its records after the header.\<close>

definition data_row_count :: "outfiles \<Rightarrow> int \<Rightarrow> nat" where
  "data_row_count files year = (case files year of None \<Rightarrow> 0 | Some content \<Rightarrow> length content - 1)"

section \<open>Region-Enricher: \<open>addRegion.py\<close>\<close>

subsection \<open>The reference table\<close>

text \<open>
  The mapping text after \<open>mapping_csv_text.strip().splitlines()\<close>, as the \<open>csv\<close>
  module reads it: \<open>records\<close> is what \<open>csv.reader(lines)\<close> yields with the
  default dialect, header first, and is empty for an empty text; \<open>sniffed_header\<close>
  is the first record under the dialect that \<open>csv.Sniffer\<close> found (the default one
  when sniffing failed). Sniffing and the parsing of records are the library's and are
  not modelled.
\<close>

record mapping_csv =
  sniffed_header :: row
  records :: "row list"

text \<open>
  The loop \<open>for i, h in enumerate(header): if P(h): index = i\<close>, which leaves the
  last match in \<open>index\<close>.
\<close>

fun last_index :: "('a \<Rightarrow> bool) \<Rightarrow> nat \<Rightarrow> 'a list \<Rightarrow> nat option \<Rightarrow> nat option" where
  "last_index P i [] index = index"
| "last_index P i (h # hs) index = last_index P (Suc i) hs (if P h then Some i else index)"

text \<open>The same loop with a \<open>break\<close> at the first match.\<close>

fun first_index :: "('a \<Rightarrow> bool) \<Rightarrow> 'a list \<Rightarrow> nat option" where
  "first_index P [] = None"
| "first_index P (h # hs) = (if P h then Some 0 else map_option Suc (first_index P hs))"

text \<open>The loop over the first data row, which sets an index only while it is \<open>None\<close>.\<close>

fun first_unset :: "('a \<Rightarrow> bool) \<Rightarrow> nat \<Rightarrow> 'a list \<Rightarrow> nat option \<Rightarrow> nat option" where
  "first_unset P i [] index = index"
| "first_unset P i (v # vs) index =
     first_unset P (Suc i) vs (if index = None \<and> P v then Some i else index)"

definition is_iso3_header :: "string \<Rightarrow> bool" where
  "is_iso3_header h =
     (let hh = py_lower (py_strip h)
      in py_in ''three'' hh \<and>
         (py_in ''alpha'' hh \<or> py_in ''letter'' hh \<or> py_in ''three_letter'' hh \<or>
          py_in ''three-letter'' hh \<or> py_in ''iso3'' hh \<or>
          py_in ''three_letter_country_code'' hh))"

definition is_continent_header :: "string \<Rightarrow> bool" where
  "is_continent_header h =
     (let hh = py_lower (py_strip h)
      in py_in ''continent'' hh \<and> (py_in ''name'' hh \<or> py_in ''continent_name'' hh))"

definition iso3_labels :: "string list" where
  "iso3_labels = [''THREE_LETTER_COUNTRY_CODE'', ''THREE_LETTER_CODE'', ''THREE_LETTER'',
                  ''ISO_A3'', ''CODE3'', ''A3'', ''THREE_LETTER'']"

definition continent_labels :: "string list" where
  "continent_labels = [''CONTINENT_NAME'', ''CONTINENT'', ''CONTINENT_CODE'']"

definition continent_shapes :: "string list" where
  "continent_shapes =
     [''asia'', ''europe'', ''africa'', ''north america'', ''south america'', ''oceania'',
      ''antarctica'',
      ''asia '', ''europe '', ''africa '', ''north america '', ''south america '', ''oceania '',
      ''antarctica '']"

definition looks_like_iso3 :: "string \<Rightarrow> bool" where
  "looks_like_iso3 v = (length (py_strip v) = 3 \<and> py_isalpha (py_strip v))"

text \<open>
  The three steps that find the two column indices: key words in the header, known
  labels, then the shapes of the cells of the first data row (read with the default
  dialect). \<open>None\<close> is the \<open>RuntimeError\<close> of the script.
\<close>

definition detect_columns :: "row \<Rightarrow> row list \<Rightarrow> (nat \<times> nat) option" where
  "detect_columns header data_rows =
     (let iso3_1 = last_index is_iso3_header 0 header None;
          cont_1 = last_index is_continent_header 0 header None;
          iso3_2 = (if iso3_1 = None
                    then last_index (\<lambda>h. py_upper (py_strip h) \<in> set iso3_labels) 0 header iso3_1
                    else iso3_1);
          cont_2 = (if cont_1 = None
                    then last_index (\<lambda>h. py_upper (py_strip h) \<in> set continent_labels) 0 header cont_1
                    else cont_1);
          first_data = (case data_rows of [] \<Rightarrow> [] | r # _ \<Rightarrow> r);
          iso3_3 = (if iso3_2 = None \<or> cont_2 = None
                    then first_unset looks_like_iso3 0 first_data iso3_2
                    else iso3_2);
          cont_3 = (if iso3_2 = None \<or> cont_2 = None
                    then first_unset (\<lambda>v. py_lower (py_strip v) \<in> set continent_shapes) 0
                           first_data cont_2
                    else cont_2)
      in case (iso3_3, cont_3) of
           (Some iso3_index, Some continent_index) \<Rightarrow> Some (iso3_index, continent_index)
         | _ \<Rightarrow> None)"

definition code_map :: "(string, string) dict" where
  "code_map = [(''AS'', ''Asia''), (''EU'', ''Europe''), (''AF'', ''Africa''),
               (''NA'', ''North America''), (''SA'', ''South America''),
               (''OC'', ''Oceania''), (''AN'', ''Antarctica'')]"

text \<open>The normalisation of a (stripped) continent cell in the building loop.\<close>

definition normalize_continent :: "string \<Rightarrow> string" where
  "normalize_continent cont =
     (let cont_norm = py_strip (py_replace ''Americas'' ''North America'' cont)
      in if length cont_norm = 2 \<and>
            py_upper cont_norm \<in> set [''AS'', ''EU'', ''AF'', ''NA'', ''SA'', ''OC'', ''AN'']
         then (case dict_get code_map (py_upper cont_norm) of
                 Some name \<Rightarrow> name | None \<Rightarrow> cont_norm)
         else cont_norm)"

text \<open>The building loop, over the data rows read with the default dialect.\<close>

fun build_loop ::
  "nat \<Rightarrow> nat \<Rightarrow> row list \<Rightarrow> (string, string) dict \<Rightarrow> (string, string) dict" where
  "build_loop iso3_index continent_index [] iso3_to_cont = iso3_to_cont"
| "build_loop iso3_index continent_index (r # rs) iso3_to_cont =
     (if length r \<le> max iso3_index continent_index
      then build_loop iso3_index continent_index rs iso3_to_cont
      else if py_strip (r ! iso3_index) = []
      then build_loop iso3_index continent_index rs iso3_to_cont
      else build_loop iso3_index continent_index rs
             (dict_set iso3_to_cont (py_upper (py_strip (r ! iso3_index)))
                (normalize_continent (py_strip (r ! continent_index)))))"

datatype build_error = NoHeader | ColumnsNotFound

definition build_iso3_to_continent_map :: "mapping_csv \<Rightarrow> build_error + (string, string) dict" where
  "build_iso3_to_continent_map mapping_text =
     (case records mapping_text of
        [] \<Rightarrow> Inl NoHeader
      | _ # data_rows \<Rightarrow>
          (case detect_columns (sniffed_header mapping_text) data_rows of
             None \<Rightarrow> Inl ColumnsNotFound
           | Some (iso3_index, continent_index) \<Rightarrow>
               Inr (build_loop iso3_index continent_index data_rows [])))"

subsection \<open>The lookup by code\<close>

text \<open>
  A cell of the data frame: missing (\<open>NaN\<close>, for which \<open>pd.isna\<close> holds), or a
  value, given by the string that \<open>str\<close> makes of it.
\<close>

datatype cell = NaN | Val string

definition cont_map :: "(string, string) dict" where
  "cont_map = [(''Asia'', ''Asia''), (''Europe'', ''Europe''), (''Africa'', ''Africa''),
               (''North America'', ''North America''), (''South America'', ''South America''),
               (''Oceania'', ''Oceania''), (''Antarctica'', ''Antarctica''),
               (''Americas'', ''North America'')]"

definition lookup_continent :: "(string, string) dict \<Rightarrow> cell \<Rightarrow> string" where
  "lookup_continent iso3_to_cont code =
     (case code of
        NaN \<Rightarrow> []
      | Val s \<Rightarrow>
          (let c = py_upper (py_strip s)
           in if c = [] then []
              else (case dict_get iso3_to_cont c of
                      None \<Rightarrow> []
                    | Some continent \<Rightarrow>
                        if continent \<noteq> []
                        then (case dict_get cont_map continent of
                                Some name \<Rightarrow> name | None \<Rightarrow> continent)
                        else [])))"

subsection \<open>The fallback by name\<close>

text \<open>
  The map from lower-cased country names to continent cells, from the records of the
  mapping text under the default dialect. The continent cells are stripped and
  otherwise taken as they are. (\<open>main\<close> comes here only after the code map was
  built, so the mapping text has a header record.)
\<close>

fun name_loop ::
  "nat \<Rightarrow> nat \<Rightarrow> row list \<Rightarrow> (string, string) dict \<Rightarrow> (string, string) dict" where
  "name_loop cname_index cont_index [] name_to_cont = name_to_cont"
| "name_loop cname_index cont_index (r # rs) name_to_cont =
     (if length r > max cname_index cont_index \<and> py_lower (py_strip (r ! cname_index)) \<noteq> []
      then name_loop cname_index cont_index rs
             (dict_set name_to_cont (py_lower (py_strip (r ! cname_index)))
                (py_strip (r ! cont_index)))
      else name_loop cname_index cont_index rs name_to_cont)"

definition build_name_to_cont :: "row list \<Rightarrow> (string, string) dict" where
  "build_name_to_cont recs =
     (case recs of
        [] \<Rightarrow> []
      | header # data_rows \<Rightarrow>
          (case (first_index (\<lambda>h. py_in ''country'' (py_lower h) \<and> py_in ''name'' (py_lower h))
                   header,
                 first_index (\<lambda>h. py_in ''continent'' (py_lower h)) header) of
             (Some cname_index, Some cont_index) \<Rightarrow>
               name_loop cname_index cont_index data_rows []
           | _ \<Rightarrow> []))"

text \<open>
  The loop of \<open>try_by_name\<close> over the keys of \<open>name_to_cont\<close>, in the order of
  the dict, with the three tests of the source in their order.
\<close>

fun relaxed_match :: "string \<Rightarrow> (string, string) dict \<Rightarrow> string" where
  "relaxed_match key [] = []"
| "relaxed_match key ((k, cont) # items) =
     (if key = k then cont
      else if py_startswith key k \<or> py_startswith k key then cont
      else if py_in k key \<or> py_in key k then cont
      else relaxed_match key items)"

definition try_by_name :: "(string, string) dict \<Rightarrow> cell \<Rightarrow> string" where
  "try_by_name name_to_cont entity =
     (case entity of
        NaN \<Rightarrow> []
      | Val s \<Rightarrow>
          (let key = py_lower (py_strip s)
           in case dict_get name_to_cont key of
                Some cont \<Rightarrow> cont
              | None \<Rightarrow> relaxed_match key name_to_cont))"

subsection \<open>The data frame and \<open>main\<close>\<close>

text \<open>
  A data frame as its columns in order, each a name with the cells of the rows. In a
  frame that \<open>pd.read_csv\<close> returns the names are distinct (it renames duplicates)
  and all columns have as many cells as the frame has rows.
\<close>

type_synonym dataframe = "(string \<times> cell list) list"

definition wf_dataframe :: "nat \<Rightarrow> dataframe \<Rightarrow> bool" where
  "wf_dataframe n df = (distinct (map fst df) \<and> list_all (\<lambda>col. length (snd col) = n) df)"

text \<open>\<open>df[c]\<close> for a column that is there.\<close>

definition get_column :: "dataframe \<Rightarrow> string \<Rightarrow> cell list" where
  "get_column df c = (case map_of df c of Some col \<Rightarrow> col | None \<Rightarrow> [])"

text \<open>
  \<open>df[c] = values\<close>: a column of that name gets the values where it stands; a
  new name is added as the last column.
\<close>

definition set_column :: "dataframe \<Rightarrow> string \<Rightarrow> cell list \<Rightarrow> dataframe" where
  "set_column df c col =
     (if c \<in> set (map fst df)
      then map (\<lambda>(c', col'). if c' = c then (c', col) else (c', col')) df
      else df @ [(c, col)])"

definition code_candidates :: "string list" where
  "code_candidates = [''Code'', ''ISO3'', ''ISO_A3'', ''ISO'', ''code'']"

text \<open>\<open>df[c].dropna().astype(str).head(10).tolist()\<close>\<close>

definition sample_vals :: "cell list \<Rightarrow> string list" where
  "sample_vals col = take 10 (concat (map (\<lambda>x. case x of NaN \<Rightarrow> [] | Val s \<Rightarrow> [s]) col))"

definition detect_code_col :: "dataframe \<Rightarrow> string option" where
  "detect_code_col df =
     (case find (\<lambda>candidate. candidate \<in> set (map fst df)) code_candidates of
        Some candidate \<Rightarrow> Some candidate
      | None \<Rightarrow>
          map_option fst
            (find (\<lambda>col. list_all looks_like_iso3
                            (filter (\<lambda>s. py_strip s \<noteq> []) (sample_vals (snd col)))) df))"

text \<open>The primary download, and the fallback URL when it fails.\<close>

definition download_mapping :: "mapping_csv option \<Rightarrow> mapping_csv option \<Rightarrow> mapping_csv option" where
  "download_mapping primary fallback = (case primary of Some t \<Rightarrow> Some t | None \<Rightarrow> fallback)"

text \<open>
  The assignment \<open>df.loc[missing_mask, "Region"] = df.loc[missing_mask,
  "Entity"].apply(try_by_name)\<close>, row by row.
\<close>

definition fill_missing ::
  "(string, string) dict \<Rightarrow> bool list \<Rightarrow> string list \<Rightarrow> cell list \<Rightarrow> string list" where
  "fill_missing name_to_cont missing_mask region entity =
     map (\<lambda>(missing, r, e). if missing then try_by_name name_to_cont e else r)
       (zip missing_mask (zip region entity))"

datatype exit_reason = InputUnreadable | NoCodeColumn | DownloadFailed | MappingUnparsed

text \<open>
  \<open>main\<close>, from the frame that \<open>pd.read_csv\<close> returned (\<open>None\<close> when it
  raised) and the two downloads (\<open>None\<close> for a failed one) to the frame given to
  \<open>to_csv\<close>, or to the reason of \<open>sys.exit(1)\<close>. What the script prints is left
  out, and so is a failure of the final write.
\<close>

definition main ::
  "dataframe option \<Rightarrow> mapping_csv option \<Rightarrow> mapping_csv option \<Rightarrow> exit_reason + dataframe" where
  "main input primary fallback =
     (case input of
        None \<Rightarrow> Inl InputUnreadable
      | Some df \<Rightarrow>
          (case detect_code_col df of
             None \<Rightarrow> Inl NoCodeColumn
           | Some code_col \<Rightarrow>
               (case download_mapping primary fallback of
                  None \<Rightarrow> Inl DownloadFailed
                | Some mapping_text \<Rightarrow>
                    (case build_iso3_to_continent_map mapping_text of
                       Inl e \<Rightarrow> Inl MappingUnparsed
                     | Inr iso3_to_cont \<Rightarrow>
                         (let region = map (lookup_continent iso3_to_cont) (get_column df code_col);
                              df1 = set_column df ''Region'' (map Val region);
                              missing_mask = map (\<lambda>s. py_strip s = []) region
                          in if list_ex (\<lambda>missing. missing) missing_mask \<and>
                                ''Entity'' \<in> set (map fst df1)
                             then
                               (let name_to_cont = build_name_to_cont (records mapping_text)
                                in Inr (set_column df1 ''Region''
                                     (map Val (fill_missing name_to_cont missing_mask region
                                        (get_column df1 ''Entity'')))))
                             else Inr df1)))))"

text \<open>The seven continent names of the module's documentation.\<close>

definition canonical_continents :: "string list" where
  "canonical_continents = [''Africa'', ''Asia'', ''Europe'', ''North America'',
                           ''South America'', ''Oceania'', ''Antarctica'']"

text \<open>
  The values that \<open>main\<close> leaves in the column \<open>Region\<close>, given the code
  column, the mapping text and the code map it has found: its two assignments to the
  column taken together. Lemma \<open>main_unfold\<close> below relates it to \<open>main\<close>.
\<close>

definition final_region ::
  "dataframe \<Rightarrow> string \<Rightarrow> mapping_csv \<Rightarrow> (string, string) dict \<Rightarrow> string list" where
  "final_region df code_col mapping_text iso3_to_cont =
     (let region = map (lookup_continent iso3_to_cont) (get_column df code_col);
          missing_mask = map (\<lambda>s. py_strip s = []) region
      in if list_ex (\<lambda>missing. missing) missing_mask \<and> ''Entity'' \<in> set (map fst df)
         then fill_missing (build_name_to_cont (records mapping_text)) missing_mask region
                (get_column df ''Entity'')
         else region)"

section \<open>Year-Filter: properties\<close>

lemma index_of_less: "index_of x xs = Some i \<Longrightarrow> i < length xs"
  by (induction xs arbitrary: i) (auto split: if_splits)

lemma index_of_nth: "index_of x xs = Some i \<Longrightarrow> xs ! i = x"
  by (induction xs arbitrary: i) (auto split: if_splits)

lemma index_of_None: "index_of x xs = None \<longleftrightarrow> x \<notin> set xs"
  by (induction xs) auto


lemma py_int_examples:
  "py_int ''1989'' = Some 1989" "py_int ''1990'' = Some 1990" "py_int ''1995'' = Some 1995"
  "py_int ''2000'' = Some 2000" "py_int ''abc'' = None"
  by (simp_all add: py_int_def digits_value_def digit_val_def int_isspace_def)



text \<open>
  The script reads its input file and writes another file: a second run, on the file
  system the first run left, finds the same input and leaves the same file system.
\<close>

lemma run_year_filter_again:
  "run_year_filter thr (fst (run_year_filter thr fs)) = run_year_filter thr fs"
proof (cases "fs yf_input_file")
  case None
  then show ?thesis
    by (simp add: run_year_filter_def)
next
  case (Some input)
  have "yf_input_file \<noteq> yf_output_file"
    by (simp add: yf_input_file_def yf_output_file_def)
  with Some show ?thesis
    by (simp add: run_year_filter_def)
qed

section \<open>Year-Splitter: properties\<close>

lemma dict_set_new: "k \<notin> fst ` set d \<Longrightarrow> dict_set d k v = d @ [(k, v)]"
  by (induction d) auto

lemma foldl_dict_set_distinct:
  "distinct (map fst (d @ pairs)) \<Longrightarrow>
   foldl (\<lambda>d (k, v). dict_set d k v) d pairs = d @ pairs"
proof (induction pairs arbitrary: d)
  case Nil
  then show ?case by simp
next
  case (Cons p pairs)
  obtain k v where p: "p = (k, v)"
    by (cases p)
  from Cons.prems have new: "k \<notin> fst ` set d"
    by (auto simp: p)
  from Cons.prems have "distinct (map fst ((d @ [(k, v)]) @ pairs))"
    by (simp add: p)
  then have "foldl (\<lambda>d (k, v). dict_set d k v) (d @ [(k, v)]) pairs = (d @ [(k, v)]) @ pairs"
    by (rule Cons.IH)
  with new show ?case
    by (simp add: p dict_set_new)
qed

lemma dict_of_distinct: "distinct (map fst pairs) \<Longrightarrow> dict_of pairs = pairs"
  using foldl_dict_set_distinct [of "[]" pairs] by (simp add: dict_of_def)

lemma dict_reader_row_same_length:
  "distinct fieldnames \<Longrightarrow> length r = length fieldnames \<Longrightarrow>
   dict_reader_row fieldnames r = \<lparr>named = zip fieldnames (map Some r), restkey = None\<rparr>"
  by (simp add: dict_reader_row_def Let_def dict_of_distinct)

lemma dict_get_zip:
  assumes "distinct fieldnames" "length r = length fieldnames" "i < length fieldnames"
  shows "dict_get (zip fieldnames (map Some r)) (fieldnames ! i) = Some (Some (r ! i))"
proof -
  have "map_of (zip fieldnames (map Some r)) (fieldnames ! i) = Some (map Some r ! i)"
    using assms by (intro map_of_zip_nth) simp_all
  then show ?thesis
    using assms by (simp add: dict_get_def)
qed

lemma dict_to_list_same_length:
  assumes "distinct fieldnames" "length r = length fieldnames"
  shows "dict_to_list fieldnames (dict_reader_row fieldnames r) = Some r"
proof -
  have keys: "\<not> list_ex (\<lambda>k. k \<notin> set fieldnames) (map fst (zip fieldnames (map Some r)))"
    using assms by (simp add: list_ex_iff)
  have "map (\<lambda>key. case dict_get (zip fieldnames (map Some r)) key of
                      None \<Rightarrow> [] | Some None \<Rightarrow> [] | Some (Some s) \<Rightarrow> s) fieldnames = r"
    using assms by (intro nth_equalityI) (simp_all add: dict_get_zip)
  with keys show ?thesis
    using assms by (simp add: dict_to_list_def dict_reader_row_same_length)
qed

lemma row_year_same_length:
  assumes "distinct fieldnames" "length r = length fieldnames"
    and "index_of ''Year'' fieldnames = Some i"
  shows "dict_get (named (dict_reader_row fieldnames r)) ''Year'' = Some (Some (r ! i))"
  using assms dict_get_zip [of fieldnames r i]
  by (simp add: dict_reader_row_same_length index_of_less index_of_nth)

lemma setup_writers_header:
  "setup_writers (Some header) ys files =
     (\<lambda>y. if y \<in> set ys then Some [header] else files y, Completed)"
  by (induction ys arbitrary: files) (auto simp: fun_eq_iff)

lemma split_loop_completes:
  assumes "distinct fieldnames" "index_of ''Year'' fieldnames = Some i"
    and "\<forall>r\<in>set rows. length r = length fieldnames"
    and "\<forall>r\<in>set rows. py_int (r ! i) \<noteq> None"
    and "\<forall>y\<in>set years. files y \<noteq> None"
  shows "snd (split_loop fieldnames rows files) = Completed"
  using assms
  by (induction rows arbitrary: files)
     (auto simp: row_year_same_length dict_to_list_same_length split: option.splits)

lemma split_loop_file:
  assumes "distinct fieldnames" "index_of ''Year'' fieldnames = Some i"
    and "\<forall>r\<in>set rows. length r = length fieldnames"
    and "\<forall>r\<in>set rows. py_int (r ! i) \<noteq> None"
    and "\<forall>y\<in>set years. files y \<noteq> None"
    and "y \<in> set years"
  shows "fst (split_loop fieldnames rows files) y =
           Some (the (files y) @ filter (\<lambda>r. py_int (r ! i) = Some y) rows)"
  using assms
  by (induction rows arbitrary: files)
     (auto simp: row_year_same_length dict_to_list_same_length split: option.splits)

lemma partition_count:
  "(\<Sum>y\<leftarrow>years. length (filter (\<lambda>r. py_int (r ! i) = Some y) rows)) +
   length (filter (\<lambda>r. case py_int (r ! i) of None \<Rightarrow> True | Some y \<Rightarrow> y \<notin> set years) rows) =
   length rows"
  by (induction rows) (auto simp: years_def split: option.splits)

lemma split_loop_unmatched:
  "\<forall>r\<in>set rows. row_year fieldnames r \<noteq> Some y \<Longrightarrow>
   fst (split_loop fieldnames rows files) y = files y"
  by (induction rows arbitrary: files) (auto simp: row_year_def split: option.splits)

lemma split_loop_append:
  "split_loop fieldnames pre files = (files', Completed) \<Longrightarrow>
   split_loop fieldnames (pre @ post) files = split_loop fieldnames post files'"
  by (induction pre arbitrary: files) (auto split: option.splits if_splits)

lemma dict_set_values: "(a, b) \<in> set (dict_set d k v) \<Longrightarrow> b = v \<or> (a, b) \<in> set d"
  by (induction d) (auto split: if_splits)

lemma foldl_dict_set_None:
  "\<forall>p\<in>set d. snd p = None \<Longrightarrow>
   \<forall>p\<in>set (foldl (\<lambda>d key. dict_set d key None) d keys). snd p = None"
proof (induction keys arbitrary: d)
  case Nil
  then show ?case by simp
next
  case (Cons key keys)
  from Cons.prems have "\<forall>p\<in>set (dict_set d key None). snd p = None"
    by (auto dest: dict_set_values)
  then show ?case
    by (simp add: Cons.IH)
qed

lemma blank_row_year: "dict_get (named (dict_reader_row fieldnames [])) k \<noteq> Some (Some s)"
proof
  assume "dict_get (named (dict_reader_row fieldnames [])) k = Some (Some s)"
  then have "map_of (foldl (\<lambda>d key. dict_set d key None) [] fieldnames) k = Some (Some s)"
    by (simp add: dict_reader_row_def dict_of_def dict_get_def dict_of_def Let_def split: if_splits)
  then have "(k, Some s) \<in> set (foldl (\<lambda>d key. dict_set d key None) [] fieldnames)"
    by (rule map_of_SomeD)
  with foldl_dict_set_None [of "[]" fieldnames] show False
    by force
qed

lemma setup_years: "setup_writers (Some header) years Map.empty =
   (\<lambda>y. if y \<in> set years then Some [header] else None, Completed)"
  by (simp add: setup_writers_header)

text \<open>
  Claim C4. For an input table with distinct column names, one of them \<open>Year\<close>,
  whose rows all have the cells of the header and a \<open>Year\<close> cell that parses as
  an integer: the run completes; for every year of \<open>years\<close> the output file of that
  year holds the header followed by exactly the input rows with that year, in the
  order of the input; and the data rows of the four output files together with the
  rows of no target year are as many as the input rows.
\<close>

theorem year_splitter_partition:
  assumes "distinct header"
    and "index_of ''Year'' header = Some i"
    and "\<forall>r\<in>set rows. length r = length header"
    and "\<forall>r\<in>set rows. py_int (r ! i) \<noteq> None"
  shows "snd (year_splitter (header # rows)) = Completed \<and>
         (\<forall>y\<in>set years. fst (year_splitter (header # rows)) y =
              Some (header # filter (\<lambda>r. py_int (r ! i) = Some y) rows)) \<and>
         (\<Sum>y\<leftarrow>years. data_row_count (fst (year_splitter (header # rows))) y) +
           length (filter (\<lambda>r. case py_int (r ! i) of None \<Rightarrow> True | Some y \<Rightarrow> y \<notin> set years) rows) =
           length rows"
proof -
  let ?files = "\<lambda>y. if y \<in> set years then Some [header] else None"
  from assms(2) have "i < length header"
    by (rule index_of_less)
  with assms(3) have nonblank: "filter (\<lambda>r. r \<noteq> []) rows = rows"
    by (auto simp: filter_id_conv)
  have run: "year_splitter (header # rows) = split_loop header rows ?files"
    by (simp add: year_splitter_def setup_years nonblank)
  have opened: "\<forall>y\<in>set years. ?files y \<noteq> None"
    by simp
  have finished: "snd (year_splitter (header # rows)) = Completed"
    unfolding run using assms opened by (rule split_loop_completes)
  have content: "fst (year_splitter (header # rows)) y =
                Some (header # filter (\<lambda>r. py_int (r ! i) = Some y) rows)"
    if "y \<in> set years" for y
    unfolding run using split_loop_file [OF assms opened that] that by simp
  have "(\<Sum>y\<leftarrow>years. data_row_count (fst (year_splitter (header # rows))) y) =
        (\<Sum>y\<leftarrow>years. length (filter (\<lambda>r. py_int (r ! i) = Some y) rows))"
    by (rule arg_cong [where f = sum_list], rule map_cong)
       (simp_all add: data_row_count_def content)
  with finished content show ?thesis
    by (simp add: partition_count)
qed


text \<open>
  The scenario of the specification: rows of the years 1990, 1995 and 2000. The row
  of 1995 is in no file.
\<close>

theorem year_splitter_partition_witness:
  "index_of ''Year'' [''Entity'', ''Year''] = Some 1 \<and>
   snd (year_splitter [[''Entity'', ''Year''], [''A'', ''1990''], [''B'', ''1995''], [''C'', ''2000'']]) = Completed \<and>
   fst (year_splitter [[''Entity'', ''Year''], [''A'', ''1990''], [''B'', ''1995''], [''C'', ''2000'']]) 1990 =
     Some [[''Entity'', ''Year''], [''A'', ''1990'']] \<and>
   fst (year_splitter [[''Entity'', ''Year''], [''A'', ''1990''], [''B'', ''1995''], [''C'', ''2000'']]) 2000 =
     Some [[''Entity'', ''Year''], [''C'', ''2000'']] \<and>
   fst (year_splitter [[''Entity'', ''Year''], [''A'', ''1990''], [''B'', ''1995''], [''C'', ''2000'']]) 2010 =
     Some [[''Entity'', ''Year'']]"
  using year_splitter_partition
    [of "[''Entity'', ''Year'']" 1 "[[''A'', ''1990''], [''B'', ''1995''], [''C'', ''2000'']]"]
  by (simp add: py_int_examples years_def)

text \<open>
  Claim C9. For every target year, the loop that sets the writers up has written the
  header to the year's file (and nothing else) when it ends, and the loop over the
  data rows starts from these files. So a target year that no input row has ends with
  a file that holds the header and no data row, also when the run ends early.
\<close>

theorem year_splitter_header_first:
  assumes "y \<in> set years"
  shows "fst (setup_writers (Some header) years Map.empty) y = Some [header] \<and>
         snd (setup_writers (Some header) years Map.empty) = Completed \<and>
         year_splitter (header # rows) =
           split_loop header (filter (\<lambda>r. r \<noteq> []) rows)
             (fst (setup_writers (Some header) years Map.empty)) \<and>
         ((\<forall>r\<in>set rows. row_year header r \<noteq> Some y) \<longrightarrow>
            fst (year_splitter (header # rows)) y = Some [header])"
proof -
  have run: "year_splitter (header # rows) =
      split_loop header (filter (\<lambda>r. r \<noteq> []) rows)
        (fst (setup_writers (Some header) years Map.empty))"
    by (simp add: year_splitter_def setup_years)
  have "fst (year_splitter (header # rows)) y = Some [header]"
    if "\<forall>r\<in>set rows. row_year header r \<noteq> Some y"
  proof -
    from that have "\<forall>r\<in>set (filter (\<lambda>r. r \<noteq> []) rows). row_year header r \<noteq> Some y"
      by simp
    then show ?thesis
      unfolding run using assms by (simp add: split_loop_unmatched setup_years)
  qed
  with run assms show ?thesis
    by (simp add: setup_years)
qed

theorem year_splitter_header_first_witness:
  "2010 \<in> set years \<and>
   fst (setup_writers (Some [''Year'']) years Map.empty) 2010 = Some [[''Year'']] \<and>
   fst (year_splitter [[''Year''], [''1990''], [''1995''], [''2000'']]) 2010 = Some [[''Year'']]"
proof -
  have target: "2010 \<in> set years"
    by (simp add: years_def)
  have unmatched: "\<forall>r\<in>set [[''1990''], [''1995''], [''2000'']]. row_year [''Year''] r \<noteq> Some 2010"
    by (simp add: row_year_def dict_reader_row_def dict_of_def dict_get_def py_int_examples)
  from year_splitter_header_first [OF target, of "[''Year'']" "[[''1990''], [''1995''], [''2000'']]"]
  have "fst (setup_writers (Some [''Year'']) years Map.empty) 2010 = Some [[''Year'']]"
    and "fst (year_splitter [[''Year''], [''1990''], [''1995''], [''2000'']]) 2010 = Some [[''Year'']]"
    using unmatched by blast+
  with target show ?thesis
    by blast
qed

text \<open>
  Claim C2 as stated fails: with the rows 1990, \<open>abc\<close>, 2000 the run ends with the
  \<open>ValueError\<close> of \<open>int\<close>, and the row of 2000 after it is never written.
\<close>

theorem year_splitter_unparseable_year_counterexample:
  "snd (year_splitter [[''Year''], [''1990''], [''abc''], [''2000'']]) = Raised ValueError \<and>
   fst (year_splitter [[''Year''], [''1990''], [''abc''], [''2000'']]) 2000 = Some [[''Year'']]"
  by (simp add: year_splitter_def years_def dict_reader_row_def dict_of_def dict_get_def dict_to_list_def
      py_int_examples)

text \<open>
  Claim C2, amended. A row whose \<open>Year\<close> cell is not integer-parseable, coming
  after rows that were split without an error, ends the run with \<open>ValueError\<close>:
  the output files are as the rows before it left them, and no row after it is
  processed.
\<close>

theorem year_splitter_unparseable_year_aborts:
  assumes "year_splitter (header # pre) = (files, Completed)"
    and "dict_get (named (dict_reader_row header r)) ''Year'' = Some (Some s)"
    and "py_int s = None"
  shows "year_splitter (header # pre @ r # post) = (files, Raised ValueError)"
proof -
  let ?opened = "\<lambda>y. if y \<in> set years then Some [header] else None"
  from assms(2) have "r \<noteq> []"
    using blank_row_year by blast
  then have rows: "filter (\<lambda>r. r \<noteq> []) (pre @ r # post) =
      filter (\<lambda>r. r \<noteq> []) pre @ r # filter (\<lambda>r. r \<noteq> []) post"
    by simp
  from assms(1) have "split_loop header (filter (\<lambda>r. r \<noteq> []) pre) ?opened = (files, Completed)"
    by (simp add: year_splitter_def setup_years)
  then have "split_loop header (filter (\<lambda>r. r \<noteq> []) (pre @ r # post)) ?opened =
             split_loop header (r # filter (\<lambda>r. r \<noteq> []) post) files"
    unfolding rows by (rule split_loop_append)
  also have "\<dots> = (files, Raised ValueError)"
    using assms(2,3) by simp
  finally show ?thesis
    by (simp add: year_splitter_def setup_years)
qed

theorem year_splitter_unparseable_year_aborts_witness:
  "py_int ''abc'' = None \<and>
   year_splitter [[''Year''], [''1990''], [''abc''], [''2000'']] =
     (fst (year_splitter [[''Year''], [''1990'']]), Raised ValueError) \<and>
   fst (year_splitter [[''Year''], [''1990'']]) 1990 = Some [[''Year''], [''1990'']] \<and>
   fst (year_splitter [[''Year''], [''1990'']]) 2000 = Some [[''Year'']]"
proof -
  have pre: "year_splitter [[''Year''], [''1990'']] =
      (fst (year_splitter [[''Year''], [''1990'']]), Completed)"
    by (simp add: prod_eq_iff year_splitter_def years_def dict_reader_row_def dict_of_def dict_get_def
        dict_to_list_def py_int_examples)
  have cell: "dict_get (named (dict_reader_row [''Year''] [''abc''])) ''Year'' = Some (Some ''abc'')"
    by (simp add: dict_reader_row_def dict_of_def dict_get_def)
  have unparseable: "py_int ''abc'' = None"
    by (simp add: py_int_examples)
  have "year_splitter ([''Year''] # [[''1990'']] @ [''abc''] # [[''2000'']]) =
      (fst (year_splitter [[''Year''], [''1990'']]), Raised ValueError)"
    using pre cell unparseable by (rule year_splitter_unparseable_year_aborts)
  moreover have "fst (year_splitter [[''Year''], [''1990'']]) 1990 = Some [[''Year''], [''1990'']]"
    "fst (year_splitter [[''Year''], [''1990'']]) 2000 = Some [[''Year'']]"
    by (simp_all add: year_splitter_def years_def dict_reader_row_def dict_of_def dict_get_def
        dict_to_list_def py_int_examples)
  ultimately show ?thesis
    using unparseable by simp
qed

section \<open>Region-Enricher: properties\<close>

lemma py_strip_whitespace: "list_all str_isspace s \<Longrightarrow> py_strip s = []"
  by (auto simp: py_strip_def list_all_iff dest: set_dropWhileD)

text \<open>
  Claim C10. For a code cell that is missing (\<open>NaN\<close>) or that consists of white
  space only, \<open>lookup_continent\<close> returns the empty string, whatever the code map
  is. The function has no error result: none of its steps can raise.
\<close>

theorem lookup_continent_missing_code:
  "lookup_continent iso3_to_cont NaN = [] \<and>
   (list_all str_isspace s \<longrightarrow> lookup_continent iso3_to_cont (Val s) = [])"
  by (simp add: lookup_continent_def py_strip_whitespace py_upper_def)

theorem lookup_continent_missing_code_witness:
  "list_all str_isspace ''   '' \<and>
   lookup_continent [(''USA'', ''North America'')] NaN = [] \<and>
   lookup_continent [(''USA'', ''North America'')] (Val ''   '') = []"
  using lookup_continent_missing_code [of "[(''USA'', ''North America'')]" "''   ''"]
  by (simp add: str_isspace_def)

lemma relaxed_match_find:
  "relaxed_match key d =
     (case find (\<lambda>(k, cont). py_in k key \<or> py_in key k) d of
        Some (k, cont) \<Rightarrow> cont
      | None \<Rightarrow> [])"
  by (induction key d rule: relaxed_match.induct)
     (auto simp: py_in_def py_startswith_def dest: prefix_imp_sublist)

text \<open>
  Claim C5, amended. \<open>try_by_name\<close> returns the continent of an exact match of
  the stripped, lower-cased entity when the name map has one. Otherwise it returns
  the continent of the first name of the map, in the order of the map, that contains
  the key or is contained in it (a prefix being one way of containing), and the empty
  string when there is none. So an exact match beats every other match, but a prefix
  match does not beat a containment at an earlier name of the map.
\<close>

theorem try_by_name_first_containing:
  "try_by_name name_to_cont NaN = [] \<and>
   try_by_name name_to_cont (Val s) =
     (case dict_get name_to_cont (py_lower (py_strip s)) of
        Some cont \<Rightarrow> cont
      | None \<Rightarrow>
          (case find (\<lambda>(k, cont). py_in k (py_lower (py_strip s)) \<or> py_in (py_lower (py_strip s)) k)
                  name_to_cont of
             Some (k, cont) \<Rightarrow> cont
           | None \<Rightarrow> []))"
  by (simp add: try_by_name_def relaxed_match_find Let_def split: option.split)

lemma lower_examples:
  "py_lower (py_strip ''Romania (historic)'') = ''romania (historic)''"
  by (simp add: py_lower_def py_strip_def str_isspace_def lower_char_def ascii_lowercase_def ascii_uppercase_def)

text \<open>
  Claim C5 as stated fails: for the entity \<open>Romania (historic)\<close> the name
  \<open>romania\<close> is a prefix match, and the name \<open>oman\<close>, which stands earlier in
  the map and is no prefix match, only a part of the key, wins.
\<close>

theorem try_by_name_prefix_counterexample:
  "try_by_name [(''oman'', ''Asia''), (''romania'', ''Europe'')] (Val ''Romania (historic)'') = ''Asia'' \<and>
   py_startswith (py_lower (py_strip ''Romania (historic)'')) ''romania'' \<and>
   \<not> py_startswith (py_lower (py_strip ''Romania (historic)'')) ''oman'' \<and>
   \<not> py_startswith ''oman'' (py_lower (py_strip ''Romania (historic)''))"
  by (simp add: try_by_name_def lower_examples dict_get_def py_startswith_def py_in_def
      sublist_Cons_right)

lemma ascii_tables_length: "length ascii_lowercase = length ascii_uppercase"
  by (simp add: ascii_lowercase_def ascii_uppercase_def)

lemma upper_char_not_lower: "upper_char c \<notin> set ascii_lowercase"
proof (cases "map_of (zip ascii_lowercase ascii_uppercase) c")
  case None
  then have "c \<notin> set ascii_lowercase"
    using map_of_zip_is_None [OF ascii_tables_length] by blast
  with None show ?thesis
    by (simp add: upper_char_def)
next
  case (Some u)
  then have "(c, u) \<in> set (zip ascii_lowercase ascii_uppercase)"
    by (rule map_of_SomeD)
  then have "u \<in> set ascii_uppercase"
    by (rule set_zip_rightD)
  then have "u \<notin> set ascii_lowercase"
    by (auto simp: ascii_lowercase_def ascii_uppercase_def)
  with Some show ?thesis
    by (simp add: upper_char_def)
qed

lemma upper_char_fixed: "c \<notin> set ascii_lowercase \<Longrightarrow> upper_char c = c"
proof -
  assume "c \<notin> set ascii_lowercase"
  then have "map_of (zip ascii_lowercase ascii_uppercase) c = None"
    using map_of_zip_is_None [OF ascii_tables_length] by blast
  then show ?thesis
    by (simp add: upper_char_def)
qed

lemma py_upper_idem: "py_upper (py_upper s) = py_upper s"
  by (simp add: py_upper_def upper_char_fixed upper_char_not_lower)

lemma dict_get_dict_set:
  "dict_get (dict_set d k v) k' = (if k' = k then Some v else dict_get d k')"
  by (induction d) (auto simp: dict_get_def)

lemma dict_set_key_list:
  "map fst (dict_set d k v) = (if k \<in> set (map fst d) then map fst d else map fst d @ [k])"
  by (induction d) (auto simp: rev_image_eqI)

lemma dict_set_keys: "fst ` set (dict_set d k v) = insert k (fst ` set d)"
proof -
  have "set (map fst (dict_set d k v)) = insert k (set (map fst d))"
    unfolding dict_set_key_list by auto
  then show ?thesis
    by simp
qed

lemma build_loop_append:
  "build_loop i j (xs @ ys) d = build_loop i j ys (build_loop i j xs d)"
  by (induction xs arbitrary: d) auto

lemma build_loop_keys_upper:
  "\<forall>k\<in>fst ` set d. py_upper k = k \<Longrightarrow>
   \<forall>k\<in>fst ` set (build_loop i j rows d). py_upper k = k"
proof (induction rows arbitrary: d)
  case Nil
  then show ?case by simp
next
  case (Cons r rows)
  show ?case
  proof (cases "length r \<le> max i j \<or> py_strip (r ! i) = []")
    case True
    with Cons show ?thesis by auto
  next
    case False
    from Cons.prems
    have "\<forall>k\<in>fst ` set (dict_set d (py_upper (py_strip (r ! i)))
             (normalize_continent (py_strip (r ! j)))). py_upper k = k"
      by (simp add: dict_set_keys py_upper_idem)
    then have "\<forall>k\<in>fst ` set (build_loop i j rows (dict_set d (py_upper (py_strip (r ! i)))
             (normalize_continent (py_strip (r ! j))))). py_upper k = k"
      by (rule Cons.IH)
    with False show ?thesis by simp
  qed
qed

lemma build_loop_keeps:
  "\<forall>r\<in>set rows. max i j < length r \<longrightarrow> py_upper (py_strip (r ! i)) \<noteq> key \<Longrightarrow>
   dict_get (build_loop i j rows d) key = dict_get d key"
  by (induction rows arbitrary: d) (auto simp: dict_get_dict_set)

lemma build_loop_last_row_wins:
  assumes "max i j < length r" and "py_strip (r ! i) \<noteq> []"
    and "\<forall>r'\<in>set later. max i j < length r' \<longrightarrow>
           py_upper (py_strip (r' ! i)) \<noteq> py_upper (py_strip (r ! i))"
  shows "dict_get (build_loop i j (earlier @ r # later) d) (py_upper (py_strip (r ! i))) =
           Some (normalize_continent (py_strip (r ! j)))"
proof -
  from assms(1) have long: "\<not> length r \<le> max i j"
    by linarith
  have "build_loop i j (earlier @ r # later) d =
        build_loop i j later
          (dict_set (build_loop i j earlier d) (py_upper (py_strip (r ! i)))
             (normalize_continent (py_strip (r ! j))))"
    using long assms(2) by (simp add: build_loop_append del: max_less_iff_conj)
  then show ?thesis
    using assms(3) by (simp add: build_loop_keeps dict_get_dict_set)
qed

text \<open>
  The lookup after the building loop, in terms of the keys that the loop and the lookup
  compute: a cell with the key of a table row gets the continent of that row, unless a
  later row has the same key.
\<close>

lemma lookup_continent_after_build:
  assumes "max i j < length r" and "py_strip (r ! i) \<noteq> []"
    and "\<forall>r'\<in>set later. max i j < length r' \<longrightarrow>
           py_upper (py_strip (r' ! i)) \<noteq> py_upper (py_strip (r ! i))"
    and "py_upper (py_strip s) = py_upper (py_strip (r ! i))"
  shows "(\<forall>k\<in>fst ` set (build_loop i j (earlier @ r # later) []). py_upper k = k) \<and>
         lookup_continent (build_loop i j (earlier @ r # later) []) (Val s) =
           (if normalize_continent (py_strip (r ! j)) \<noteq> []
            then (case dict_get cont_map (normalize_continent (py_strip (r ! j))) of
                    Some name \<Rightarrow> name
                  | None \<Rightarrow> normalize_continent (py_strip (r ! j)))
            else [])"
proof -
  have keys: "\<forall>k\<in>fst ` set (build_loop i j (earlier @ r # later) []). py_upper k = k"
    by (rule build_loop_keys_upper) simp
  have stored: "dict_get (build_loop i j (earlier @ r # later) []) (py_upper (py_strip s)) =
      Some (normalize_continent (py_strip (r ! j)))"
    unfolding assms(4) using assms(1-3) by (rule build_loop_last_row_wins)
  have "py_upper (py_strip s) \<noteq> []"
    using assms(2,4) by (simp add: py_upper_def)
  with stored have "lookup_continent (build_loop i j (earlier @ r # later) []) (Val s) =
      (if normalize_continent (py_strip (r ! j)) \<noteq> []
       then (case dict_get cont_map (normalize_continent (py_strip (r ! j))) of
               Some name \<Rightarrow> name
             | None \<Rightarrow> normalize_continent (py_strip (r ! j)))
       else [])"
    by (simp add: lookup_continent_def Let_def)
  with keys show ?thesis
    by blast
qed


lemma find_SomeD: "find P xs = Some x \<Longrightarrow> P x \<and> x \<in> set xs"
  by (induction xs) (auto split: if_splits)

lemma detect_code_col_is_column:
  assumes "detect_code_col df = Some c"
  shows "c \<in> set (map fst df)"
proof (cases "find (\<lambda>candidate. candidate \<in> set (map fst df)) code_candidates")
  case None
  with assms obtain col where
    "find (\<lambda>col. list_all looks_like_iso3
             (filter (\<lambda>s. py_strip s \<noteq> []) (sample_vals (snd col)))) df = Some col"
    and "c = fst col"
    by (auto simp: detect_code_col_def)
  then show ?thesis
    by (auto dest: find_SomeD)
next
  case (Some candidate)
  with assms have "candidate = c"
    by (simp add: detect_code_col_def)
  with Some show ?thesis
    by (auto dest: find_SomeD)
qed

lemma get_column_length:
  "wf_dataframe n df \<Longrightarrow> c \<in> set (map fst df) \<Longrightarrow> length (get_column df c) = n"
proof -
  assume wf: "wf_dataframe n df" and "c \<in> set (map fst df)"
  then obtain col where col: "map_of df c = Some col"
    by (cases "map_of df c") (auto simp: map_of_eq_None_iff)
  then have "(c, col) \<in> set df"
    by (rule map_of_SomeD)
  with wf have "length col = n"
    by (auto simp: wf_dataframe_def list_all_iff)
  with col show ?thesis
    by (simp add: get_column_def)
qed

lemma set_column_new:
  "c \<notin> set (map fst df) \<Longrightarrow> set_column (df @ [(c, old)]) c col = df @ [(c, col)]"
proof -
  assume new: "c \<notin> set (map fst df)"
  then have "map (\<lambda>(c', col'). if c' = c then (c', col) else (c', col')) df = df"
    by (induction df) auto
  then show ?thesis
    by (simp add: set_column_def)
qed

lemma get_column_append_other:
  "c \<in> set (map fst df) \<Longrightarrow> get_column (df @ extra) c = get_column df c"
proof -
  assume "c \<in> set (map fst df)"
  then obtain col where "map_of df c = Some col"
    by (cases "map_of df c") (auto simp: map_of_eq_None_iff)
  then show ?thesis
    by (simp add: get_column_def map_add_def)
qed

lemma fill_missing_length:
  "length missing_mask = n \<Longrightarrow> length region = n \<Longrightarrow> length entity = n \<Longrightarrow>
   length (fill_missing name_to_cont missing_mask region entity) = n"
  by (simp add: fill_missing_def)

lemma get_column_set_column_same: "get_column (set_column df c col) c = col"
proof (cases "c \<in> set (map fst df)")
  case True
  then have "map_of (map (\<lambda>(c', col'). if c' = c then (c', col) else (c', col')) df) c = Some col"
    by (induction df) auto
  with True show ?thesis
    by (simp add: get_column_def set_column_def)
next
  case False
  then have "map_of df c = None"
    by (simp add: map_of_eq_None_iff)
  with False show ?thesis
    by (simp add: get_column_def set_column_def map_add_def)
qed

lemma map_of_set_column_other:
  "c' \<noteq> c \<Longrightarrow> map_of (set_column df c col) c' = map_of df c'"
proof -
  assume neq: "c' \<noteq> c"
  then have "map_of (map (\<lambda>(c', col'). if c' = c then (c', col) else (c', col')) df) c' =
             map_of df c'"
    by (induction df) auto
  with neq show ?thesis
    by (auto simp: set_column_def map_add_def split: option.splits)
qed

lemma get_column_set_column_other:
  "c' \<noteq> c \<Longrightarrow> get_column (set_column df c col) c' = get_column df c'"
  by (simp add: get_column_def map_of_set_column_other)

lemma set_column_names:
  "map fst (set_column df c col) =
     (if c \<in> set (map fst df) then map fst df else map fst df @ [c])"
proof -
  have "map fst (map (\<lambda>(c', col'). if c' = c then (c', col) else (c', col')) df) = map fst df"
    by (induction df) auto
  then show ?thesis
    by (simp add: set_column_def)
qed

lemma set_column_twice: "set_column (set_column df c col1) c col2 = set_column df c col2"
proof (cases "c \<in> set (map fst df)")
  case True
  have "map (\<lambda>(c', col'). if c' = c then (c', col2) else (c', col'))
          (map (\<lambda>(c', col'). if c' = c then (c', col1) else (c', col')) df) =
        map (\<lambda>(c', col'). if c' = c then (c', col2) else (c', col')) df"
    by (induction df) auto
  with True show ?thesis
    using set_column_names [of df c col1] by (simp add: set_column_def)
next
  case False
  then show ?thesis
    using set_column_new [of c df col1 col2] by (simp add: set_column_def)
qed

lemma main_unfold:
  assumes "detect_code_col df = Some code_col"
    and "download_mapping primary fallback = Some mapping_text"
    and "build_iso3_to_continent_map mapping_text = Inr iso3_to_cont"
  shows "main (Some df) primary fallback =
           Inr (set_column df ''Region''
                  (map Val (final_region df code_col mapping_text iso3_to_cont)))"
proof -
  let ?region = "map (lookup_continent iso3_to_cont) (get_column df code_col)"
  let ?mask = "map (\<lambda>s. py_strip s = []) ?region"
  let ?df1 = "set_column df ''Region'' (map Val ?region)"
  have entity: "''Entity'' \<in> set (map fst ?df1) \<longleftrightarrow> ''Entity'' \<in> set (map fst df)"
    unfolding set_column_names by simp
  have column: "get_column ?df1 ''Entity'' = get_column df ''Entity''"
    by (simp add: get_column_set_column_other)
  have run: "main (Some df) primary fallback =
      (if list_ex (\<lambda>missing. missing) ?mask \<and> ''Entity'' \<in> set (map fst ?df1)
       then Inr (set_column ?df1 ''Region''
              (map Val (fill_missing (build_name_to_cont (records mapping_text)) ?mask ?region
                 (get_column ?df1 ''Entity''))))
       else Inr ?df1)"
    unfolding main_def Let_def using assms by simp
  show ?thesis
    unfolding run entity column set_column_twice final_region_def Let_def
    by (rule if_distrib [where f = "\<lambda>r. Inr (set_column df ''Region'' (map Val r))", symmetric,
          THEN trans [rotated]]) simp
qed

lemma main_sets_region:
  assumes "main (Some df) primary fallback = Inr out"
  obtains code_col mapping_text iso3_to_cont where
    "detect_code_col df = Some code_col"
    "download_mapping primary fallback = Some mapping_text"
    "build_iso3_to_continent_map mapping_text = Inr iso3_to_cont"
    "out = set_column df ''Region'' (map Val (final_region df code_col mapping_text iso3_to_cont))"
proof -
  from assms obtain code_col mapping_text iso3_to_cont where
    found: "detect_code_col df = Some code_col"
      "download_mapping primary fallback = Some mapping_text"
      "build_iso3_to_continent_map mapping_text = Inr iso3_to_cont"
    by (auto simp: main_def split: option.splits sum.splits)
  from main_unfold [OF found] assms
  have "out = set_column df ''Region'' (map Val (final_region df code_col mapping_text iso3_to_cont))"
    by simp
  with found show ?thesis
    by (rule that)
qed


lemma cont_map_canonical:
  "v \<in> set canonical_continents \<Longrightarrow> dict_get cont_map v = Some v"
  by (auto simp: canonical_continents_def cont_map_def dict_get_def)

lemma cont_map_americas: "dict_get cont_map ''Americas'' = Some ''North America''"
  by (simp add: cont_map_def dict_get_def)

lemma dict_get_value: "dict_get d k = Some v \<Longrightarrow> v \<in> snd ` set d"
proof -
  assume "dict_get d k = Some v"
  then have "(k, v) \<in> set d"
    unfolding dict_get_def by (rule map_of_SomeD)
  then show ?thesis
    by force
qed

lemma lookup_continent_canonical:
  assumes "\<forall>v\<in>snd ` set iso3_to_cont. v \<in> set canonical_continents \<or> v = ''Americas'' \<or> v = []"
  shows "lookup_continent iso3_to_cont code \<in> set canonical_continents \<or>
         lookup_continent iso3_to_cont code = []"
proof (cases code)
  case NaN
  then show ?thesis
    by (simp add: lookup_continent_def)
next
  case (Val s)
  show ?thesis
  proof (cases "dict_get iso3_to_cont (py_upper (py_strip s))")
    case None
    with Val show ?thesis
      by (simp add: lookup_continent_def Let_def)
  next
    case (Some continent)
    then have "continent \<in> snd ` set iso3_to_cont"
      by (rule dict_get_value)
    with assms consider "continent \<in> set canonical_continents" | "continent = ''Americas''"
      | "continent = []"
      by blast
    then show ?thesis
    proof cases
      case 1
      with Val Some show ?thesis
        by (simp add: lookup_continent_def Let_def cont_map_canonical)
    next
      case 2
      with Val Some show ?thesis
        by (simp add: lookup_continent_def Let_def cont_map_americas canonical_continents_def)
    next
      case 3
      with Val Some show ?thesis
        by (simp add: lookup_continent_def Let_def)
    qed
  qed
qed

lemma relaxed_match_value:
  "relaxed_match key d = [] \<or> relaxed_match key d \<in> snd ` set d"
  by (induction key d rule: relaxed_match.induct) auto

lemma try_by_name_value:
  "try_by_name name_to_cont entity = [] \<or> try_by_name name_to_cont entity \<in> snd ` set name_to_cont"
proof (cases entity)
  case NaN
  then show ?thesis
    by (simp add: try_by_name_def)
next
  case (Val s)
  show ?thesis
  proof (cases "dict_get name_to_cont (py_lower (py_strip s))")
    case None
    with Val show ?thesis
      using relaxed_match_value [of "py_lower (py_strip s)" name_to_cont]
      by (simp add: try_by_name_def Let_def)
  next
    case (Some cont)
    with Val show ?thesis
      by (simp add: try_by_name_def Let_def dict_get_value)
  qed
qed

lemma fill_missing_elements:
  assumes "s \<in> set (fill_missing name_to_cont missing_mask region entity)"
  shows "s \<in> set region \<or> (\<exists>e. s = try_by_name name_to_cont e)"
proof -
  from assms obtain missing r e where
    zipped: "(missing, r, e) \<in> set (zip missing_mask (zip region entity))"
    and s: "s = (if missing then try_by_name name_to_cont e else r)"
    by (auto simp: fill_missing_def)
  from zipped have "(r, e) \<in> set (zip region entity)"
    by (rule set_zip_rightD)
  then have "r \<in> set region"
    by (rule set_zip_leftD)
  with s show ?thesis
    by auto
qed

lemma final_region_canonical:
  assumes "\<forall>v\<in>snd ` set iso3_to_cont. v \<in> set canonical_continents \<or> v = ''Americas'' \<or> v = []"
    and "\<forall>v\<in>snd ` set (build_name_to_cont (records mapping_text)).
           v \<in> set canonical_continents \<or> v = []"
    and "s \<in> set (final_region df code_col mapping_text iso3_to_cont)"
  shows "s \<in> set canonical_continents \<or> s = []"
proof -
  let ?region = "map (lookup_continent iso3_to_cont) (get_column df code_col)"
  have by_code: "r \<in> set canonical_continents \<or> r = []" if "r \<in> set ?region" for r
    using that lookup_continent_canonical [OF assms(1)] by auto
  have by_name: "try_by_name (build_name_to_cont (records mapping_text)) e \<in> set canonical_continents \<or>
      try_by_name (build_name_to_cont (records mapping_text)) e = []" for e
    using try_by_name_value [of "build_name_to_cont (records mapping_text)" e] assms(2) by blast
  from assms(3) have "s \<in> set ?region \<or>
      (\<exists>e. s = try_by_name (build_name_to_cont (records mapping_text)) e)"
    by (auto simp: final_region_def Let_def dest: fill_missing_elements split: if_splits)
  with by_code by_name show ?thesis
    by blast
qed

text \<open>
  Claim C1, amended. When every value of the code map is one of the seven names,
  \<open>Americas\<close> or empty, and every value of the name map is one of the seven names
  or empty, every cell of the column \<open>Region\<close> of the output is a string that is one
  of the seven names or empty.
\<close>

theorem region_values_canonical:
  assumes "main (Some df) primary fallback = Inr out"
    and "download_mapping primary fallback = Some mapping_text"
    and "build_iso3_to_continent_map mapping_text = Inr iso3_to_cont"
    and "\<forall>v\<in>snd ` set iso3_to_cont. v \<in> set canonical_continents \<or> v = ''Americas'' \<or> v = []"
    and "\<forall>v\<in>snd ` set (build_name_to_cont (records mapping_text)).
           v \<in> set canonical_continents \<or> v = []"
  shows "\<forall>x\<in>set (get_column out ''Region'').
           \<exists>s. x = Val s \<and> (s \<in> set canonical_continents \<or> s = [])"
proof -
  from assms(1) obtain code_col mapping_text' iso3_to_cont' where
    "download_mapping primary fallback = Some mapping_text'"
    "build_iso3_to_continent_map mapping_text' = Inr iso3_to_cont'"
    "out = set_column df ''Region''
             (map Val (final_region df code_col mapping_text' iso3_to_cont'))"
    by (rule main_sets_region)
  with assms(2,3) have
    "out = set_column df ''Region'' (map Val (final_region df code_col mapping_text iso3_to_cont))"
    by simp
  then have "get_column out ''Region'' =
      map Val (final_region df code_col mapping_text iso3_to_cont)"
    by (simp add: get_column_set_column_same)
  then show ?thesis
    using final_region_canonical [OF assms(4,5)] by auto
qed


text \<open>
  With a column \<open>Region\<close> in the input, the column names stay as they are and every
  other column keeps its values: the values of \<open>Region\<close> are replaced where the
  column stands.
\<close>

lemma main_overwrites_region_column:
  assumes "main (Some df) primary fallback = Inr out"
    and "''Region'' \<in> set (map fst df)"
  shows "map fst out = map fst df \<and> (\<forall>c. c \<noteq> ''Region'' \<longrightarrow> get_column out c = get_column df c)"
proof -
  from assms(1) obtain region where "out = set_column df ''Region'' region"
    by (rule main_sets_region)
  with assms(2) show ?thesis
    by (simp add: set_column_names get_column_set_column_other)
qed

text \<open>
  Claim C6 as stated fails for an input that has a column \<open>Region\<close>: no column is
  added, and the values of an original column change.
\<close>

theorem main_existing_region_counterexample:
  "main (Some [(''Code'', [Val ''USA'']), (''Region'', [Val ''Pacific''])])
     (Some \<lparr>sniffed_header = [''Three_Letter_Country_Code'', ''Continent_Name''],
            records = [[''Three_Letter_Country_Code'', ''Continent_Name''],
                       [''USA'', ''North America''], [''FRA'', ''Europe'']]\<rparr>)
     None =
   Inr [(''Code'', [Val ''USA'']), (''Region'', [Val ''North America''])]"
  by code_simp

text \<open>
  Claim C1 as stated fails: \<open>cont_map.get(continent, continent)\<close> passes a
  continent cell of the reference table that is none of the seven names through to the
  column \<open>Region\<close>.
\<close>

theorem region_values_passthrough_counterexample:
  "main (Some [(''Code'', [Val ''RUS''])])
     (Some \<lparr>sniffed_header = [''Three_Letter_Country_Code'', ''Continent_Name''],
            records = [[''Three_Letter_Country_Code'', ''Continent_Name''],
                       [''RUS'', ''Eurasia'']]\<rparr>)
     None =
   Inr [(''Code'', [Val ''RUS'']), (''Region'', [Val ''Eurasia''])] \<and>
   ''Eurasia'' \<notin> set canonical_continents \<and> ''Eurasia'' \<noteq> []"
  by code_simp

text \<open>
  A run with both ways of finding a region: \<open>usa\<close> by code, \<open>French
  Republic\<close> by name.
\<close>

theorem region_values_canonical_witness:
  "main (Some [(''Entity'', [Val ''USA'', Val ''French Republic'']), (''Code'', [Val ''usa'', Val ''XXX''])])
     (Some \<lparr>sniffed_header = [''Continent_Name'', ''Country_Name'', ''Three_Letter_Country_Code''],
            records = [[''Continent_Name'', ''Country_Name'', ''Three_Letter_Country_Code''],
                       [''North America'', ''United States of America'', ''USA''],
                       [''Europe'', ''France, French Republic'', ''FRA'']]\<rparr>)
     None =
   Inr [(''Entity'', [Val ''USA'', Val ''French Republic'']), (''Code'', [Val ''usa'', Val ''XXX'']),
        (''Region'', [Val ''North America'', Val ''Europe''])] \<and>
   ''North America'' \<in> set canonical_continents \<and> ''Europe'' \<in> set canonical_continents"
proof -
  let ?text = "\<lparr>sniffed_header = [''Continent_Name'', ''Country_Name'', ''Three_Letter_Country_Code''],
            records = [[''Continent_Name'', ''Country_Name'', ''Three_Letter_Country_Code''],
                       [''North America'', ''United States of America'', ''USA''],
                       [''Europe'', ''France, French Republic'', ''FRA'']]\<rparr>"
  have run: "main (Some [(''Entity'', [Val ''USA'', Val ''French Republic'']), (''Code'', [Val ''usa'', Val ''XXX''])])
     (Some ?text) None =
   Inr [(''Entity'', [Val ''USA'', Val ''French Republic'']), (''Code'', [Val ''usa'', Val ''XXX'']),
        (''Region'', [Val ''North America'', Val ''Europe''])]"
    by code_simp
  have downloaded: "download_mapping (Some ?text) None = Some ?text"
    by (simp add: download_mapping_def)
  have built: "build_iso3_to_continent_map ?text =
      Inr [(''USA'', ''North America''), (''FRA'', ''Europe'')]"
    by code_simp
  have names: "build_name_to_cont (records ?text) =
      [(''united states of america'', ''North America''), (''france, french republic'', ''Europe'')]"
    by code_simp
  have by_code: "\<forall>v\<in>snd ` set [(''USA'', ''North America''), (''FRA'', ''Europe'')].
      v \<in> set canonical_continents \<or> v = ''Americas'' \<or> v = []"
    by (simp add: canonical_continents_def)
  have by_name: "\<forall>v\<in>snd ` set (build_name_to_cont (records ?text)).
      v \<in> set canonical_continents \<or> v = []"
    unfolding names by (simp add: canonical_continents_def)
  from region_values_canonical [OF run downloaded built by_code by_name]
  have "''North America'' \<in> set canonical_continents \<and> ''Europe'' \<in> set canonical_continents"
    by (simp add: get_column_def)
  with run show ?thesis
    by simp
qed

lemma upper_char_of_lower:
  assumes "(a, b) \<in> set (zip ascii_lowercase ascii_uppercase)"
  shows "upper_char a = b" and "upper_char b = b"
proof -
  have "distinct (map fst (zip ascii_lowercase ascii_uppercase))"
    by (simp add: ascii_lowercase_def ascii_uppercase_def)
  then have "map_of (zip ascii_lowercase ascii_uppercase) a = Some b"
    using assms by (rule map_of_is_SomeI)
  then show "upper_char a = b"
    by (simp add: upper_char_def)
  with upper_char_not_lower [of a] have "b \<notin> set ascii_lowercase"
    by simp
  then show "upper_char b = b"
    by (rule upper_char_fixed)
qed

lemma same_letter_upper: "same_letter a b \<Longrightarrow> upper_char a = upper_char b"
  unfolding same_letter_def using upper_char_of_lower by metis

lemma letters_not_space:
  assumes "(a, b) \<in> set (zip ascii_lowercase ascii_uppercase)"
  shows "\<not> str_isspace a" and "\<not> str_isspace b"
proof -
  from assms have "a \<in> set ascii_lowercase"
    by (rule set_zip_leftD)
  then show "\<not> str_isspace a"
    by (auto simp: ascii_lowercase_def str_isspace_def)
  from assms have "b \<in> set ascii_uppercase"
    by (rule set_zip_rightD)
  then show "\<not> str_isspace b"
    by (auto simp: ascii_uppercase_def str_isspace_def)
qed

lemma same_letter_space: "same_letter a b \<Longrightarrow> str_isspace a = str_isspace b"
  unfolding same_letter_def using letters_not_space by metis

lemma same_letters_upper: "list_all2 same_letter cs ct \<Longrightarrow> py_upper cs = py_upper ct"
  unfolding py_upper_def
  by (induction cs ct rule: list_all2_induct) (simp_all add: same_letter_upper)

lemma py_strip_padded:
  assumes "list_all str_isspace pl" and "list_all str_isspace pr"
    and "c \<noteq> []" and "\<not> str_isspace (hd c)" and "\<not> str_isspace (last c)"
  shows "py_strip (pl @ c @ pr) = c"
proof -
  from assms(1,3,4) have "dropWhile str_isspace (pl @ c @ pr) = c @ pr"
    by (cases c) (simp_all add: list_all_iff dropWhile_append)
  moreover from assms(2,3,5) have "dropWhile str_isspace (rev pr @ rev c) = rev c"
    by (cases c rule: rev_cases) (simp_all add: list_all_iff dropWhile_append)
  ultimately show ?thesis
    by (simp add: py_strip_def)
qed

lemma same_letters_ends:
  assumes "list_all2 same_letter cs ct" and "ct \<noteq> []"
  shows "cs \<noteq> []" and "str_isspace (hd cs) = str_isspace (hd ct)"
    and "str_isspace (last cs) = str_isspace (last ct)"
proof -
  from assms show nonempty: "cs \<noteq> []"
    by auto
  from assms nonempty have "same_letter (hd cs) (hd ct)"
    by (cases cs; cases ct) simp_all
  then show "str_isspace (hd cs) = str_isspace (hd ct)"
    by (rule same_letter_space)
  from assms(1) have "list_all2 same_letter (rev cs) (rev ct)"
    by simp
  with assms(2) nonempty have "same_letter (hd (rev cs)) (hd (rev ct))"
    by (cases "rev cs"; cases "rev ct") simp_all
  with assms(2) nonempty have "same_letter (last cs) (last ct)"
    by (simp add: hd_rev)
  then show "str_isspace (last cs) = str_isspace (last ct)"
    by (rule same_letter_space)
qed

lemma upper_no_lower: "py_upper k = k \<Longrightarrow> c \<in> set k \<Longrightarrow> c \<notin> set ascii_lowercase"
proof -
  assume "py_upper k = k" and "c \<in> set k"
  then have "c \<in> set (map upper_char k)"
    by (simp add: py_upper_def)
  then show ?thesis
    using upper_char_not_lower by auto
qed


text \<open>
  Claim C7. No key that the building loop stores has a lower-case letter. And when a
  row of the table has, in the code column, a code \<open>ct\<close> with white space around
  it, and the code cell of an input row is \<open>cs\<close> with white space around it, where
  \<open>cs\<close> and \<open>ct\<close> are the same up to the case of their letters, the lookup
  returns the continent of that table row (normalised, and passed through
  \<open>cont_map\<close>), provided no later row of the table writes the same key: a later
  row would overwrite the entry.
\<close>

theorem lookup_continent_ignores_case_and_space:
  assumes "max i j < length r"
    and "r ! i = ql @ ct @ qr" and "s = pl @ cs @ pr"
    and "list_all str_isspace ql" and "list_all str_isspace qr"
    and "list_all str_isspace pl" and "list_all str_isspace pr"
    and "ct \<noteq> []" and "\<not> str_isspace (hd ct)" and "\<not> str_isspace (last ct)"
    and "list_all2 same_letter cs ct"
    and "\<forall>r'\<in>set later. max i j < length r' \<longrightarrow>
           py_upper (py_strip (r' ! i)) \<noteq> py_upper (py_strip (r ! i))"
  shows "(\<forall>k\<in>fst ` set (build_loop i j (earlier @ r # later) []).
            \<forall>c\<in>set k. c \<notin> set ascii_lowercase) \<and>
         lookup_continent (build_loop i j (earlier @ r # later) []) (Val s) =
           (if normalize_continent (py_strip (r ! j)) \<noteq> []
            then (case dict_get cont_map (normalize_continent (py_strip (r ! j))) of
                    Some name \<Rightarrow> name
                  | None \<Rightarrow> normalize_continent (py_strip (r ! j)))
            else [])"
proof -
  have table_code: "py_strip (r ! i) = ct"
    unfolding assms(2) using assms(4,5,8,9,10) by (rule py_strip_padded)
  from assms(11,8) have "cs \<noteq> []" and "str_isspace (hd cs) = str_isspace (hd ct)"
    and "str_isspace (last cs) = str_isspace (last ct)"
    by (rule same_letters_ends)+
  with assms(9,10) have "cs \<noteq> []" and "\<not> str_isspace (hd cs)" and "\<not> str_isspace (last cs)"
    by simp_all
  with assms(6,7) have cell_code: "py_strip s = cs"
    unfolding assms(3) by (rule py_strip_padded)
  from assms(11) have "py_upper cs = py_upper ct"
    by (rule same_letters_upper)
  with table_code cell_code have same: "py_upper (py_strip s) = py_upper (py_strip (r ! i))"
    by simp
  from table_code assms(8) have code: "py_strip (r ! i) \<noteq> []"
    by simp
  from lookup_continent_after_build [OF assms(1) code assms(12) same]
  have upper: "\<forall>k\<in>fst ` set (build_loop i j (earlier @ r # later) []). py_upper k = k"
    and found: "lookup_continent (build_loop i j (earlier @ r # later) []) (Val s) =
           (if normalize_continent (py_strip (r ! j)) \<noteq> []
            then (case dict_get cont_map (normalize_continent (py_strip (r ! j))) of
                    Some name \<Rightarrow> name
                  | None \<Rightarrow> normalize_continent (py_strip (r ! j)))
            else [])"
    by blast+
  from upper have "\<forall>k\<in>fst ` set (build_loop i j (earlier @ r # later) []).
      \<forall>c\<in>set k. c \<notin> set ascii_lowercase"
    using upper_no_lower by blast
  with found show ?thesis
    by blast
qed

text \<open>
  The scenario of the specification, the table of \<open>USA\<close> and \<open>FRA\<close> read
  through the detection of the columns: the cell \<open>usa\<close>, bare and with white space
  around it.
\<close>

theorem lookup_continent_ignores_case_and_space_witness:
  "build_iso3_to_continent_map
     \<lparr>sniffed_header = [''Three_Letter_Country_Code'', ''Continent_Name''],
      records = [[''Three_Letter_Country_Code'', ''Continent_Name''],
                 [''USA'', ''North America''], [''FRA'', ''Europe'']]\<rparr> =
     Inr (build_loop 0 1 [[''USA'', ''North America''], [''FRA'', ''Europe'']] []) \<and>
   list_all2 same_letter ''usa'' ''USA'' \<and>
   lookup_continent (build_loop 0 1 [[''USA'', ''North America''], [''FRA'', ''Europe'']] [])
     (Val '' usa  '') = ''North America'' \<and>
   lookup_continent (build_loop 0 1 [[''USA'', ''North America''], [''FRA'', ''Europe'']] [])
     (Val ''usa'') = ''North America''"
proof -
  have detected: "build_iso3_to_continent_map
     \<lparr>sniffed_header = [''Three_Letter_Country_Code'', ''Continent_Name''],
      records = [[''Three_Letter_Country_Code'', ''Continent_Name''],
                 [''USA'', ''North America''], [''FRA'', ''Europe'']]\<rparr> =
     Inr (build_loop 0 1 [[''USA'', ''North America''], [''FRA'', ''Europe'']] [])"
    by code_simp
  have long: "max 0 1 < length [''USA'', ''North America'']"
    by simp
  have table_cell: "[''USA'', ''North America''] ! 0 = [] @ ''USA'' @ []"
    by simp
  have padded: "'' usa  '' = '' '' @ ''usa'' @ ''  ''"
    by simp
  have bare: "''usa'' = [] @ ''usa'' @ []"
    by simp
  have no_pad: "list_all str_isspace []"
    by simp
  have pad_l: "list_all str_isspace '' ''" and pad_r: "list_all str_isspace ''  ''"
    by (simp_all add: str_isspace_def)
  have core: "''USA'' \<noteq> []" "\<not> str_isspace (hd ''USA'')" "\<not> str_isspace (last ''USA'')"
    by (simp_all add: str_isspace_def)
  have letters: "list_all2 same_letter ''usa'' ''USA''"
    by (simp add: same_letter_def ascii_lowercase_def ascii_uppercase_def)
  have later: "\<forall>r'\<in>set [[''FRA'', ''Europe'']]. max 0 1 < length r' \<longrightarrow>
      py_upper (py_strip (r' ! 0)) \<noteq> py_upper (py_strip ([''USA'', ''North America''] ! 0))"
    by code_simp
  have continent: "(if normalize_continent (py_strip ([''USA'', ''North America''] ! 1)) \<noteq> []
         then (case dict_get cont_map
                      (normalize_continent (py_strip ([''USA'', ''North America''] ! 1))) of
                 Some name \<Rightarrow> name
               | None \<Rightarrow> normalize_continent (py_strip ([''USA'', ''North America''] ! 1)))
         else []) = ''North America''"
    by code_simp
  have "lookup_continent
          (build_loop 0 1 ([] @ [''USA'', ''North America''] # [[''FRA'', ''Europe'']]) [])
          (Val '' usa  '') = ''North America''"
    using lookup_continent_ignores_case_and_space
      [OF long table_cell padded no_pad no_pad pad_l pad_r core letters later, of "[]"]
    unfolding continent by (rule conjunct2)
  moreover have "lookup_continent
          (build_loop 0 1 ([] @ [''USA'', ''North America''] # [[''FRA'', ''Europe'']]) [])
          (Val ''usa'') = ''North America''"
    using lookup_continent_ignores_case_and_space
      [OF long table_cell bare no_pad no_pad no_pad no_pad core letters later, of "[]"]
    unfolding continent by (rule conjunct2)
  ultimately show ?thesis
    using detected letters by simp
qed

lemma fill_missing_nth:
  assumes "i < n" and "length missing_mask = n" and "length region = n" and "length entity = n"
  shows "fill_missing name_to_cont missing_mask region entity ! i =
           (if missing_mask ! i then try_by_name name_to_cont (entity ! i) else region ! i)"
  using assms by (simp add: fill_missing_def)

lemma final_region_rows:
  assumes "wf_dataframe n df" and "code_col \<in> set (map fst df)"
  shows "length (final_region df code_col mapping_text iso3_to_cont) = n"
    and "i < n \<Longrightarrow> final_region df code_col mapping_text iso3_to_cont ! i =
           (if py_strip (lookup_continent iso3_to_cont (get_column df code_col ! i)) = [] \<and>
               ''Entity'' \<in> set (map fst df)
            then try_by_name (build_name_to_cont (records mapping_text))
                   (get_column df ''Entity'' ! i)
            else lookup_continent iso3_to_cont (get_column df code_col ! i))"
proof -
  let ?region = "map (lookup_continent iso3_to_cont) (get_column df code_col)"
  let ?mask = "map (\<lambda>s. py_strip s = []) ?region"
  let ?fill = "list_ex (\<lambda>missing. missing) ?mask \<and> ''Entity'' \<in> set (map fst df)"
  from assms have codes: "length (get_column df code_col) = n"
    by (rule get_column_length)
  have entities: "length (get_column df ''Entity'') = n" if "''Entity'' \<in> set (map fst df)"
    using assms(1) that by (rule get_column_length)
  show "length (final_region df code_col mapping_text iso3_to_cont) = n"
    using codes entities by (simp add: final_region_def Let_def fill_missing_length)
  show "final_region df code_col mapping_text iso3_to_cont ! i =
           (if py_strip (lookup_continent iso3_to_cont (get_column df code_col ! i)) = [] \<and>
               ''Entity'' \<in> set (map fst df)
            then try_by_name (build_name_to_cont (records mapping_text))
                   (get_column df ''Entity'' ! i)
            else lookup_continent iso3_to_cont (get_column df code_col ! i))"
    if "i < n"
  proof (cases ?fill)
    case True
    then have "final_region df code_col mapping_text iso3_to_cont ! i =
        fill_missing (build_name_to_cont (records mapping_text)) ?mask ?region
          (get_column df ''Entity'') ! i"
      by (simp add: final_region_def Let_def)
    also have "\<dots> = (if ?mask ! i
        then try_by_name (build_name_to_cont (records mapping_text)) (get_column df ''Entity'' ! i)
        else ?region ! i)"
      using that codes entities True by (intro fill_missing_nth [where n = n]) simp_all
    finally show ?thesis
      using that codes True by simp
  next
    case False
    from that codes have "?mask ! i \<Longrightarrow> list_ex (\<lambda>missing. missing) ?mask"
      unfolding list_ex_iff by (metis length_map nth_mem)
    with False that codes have "\<not> (py_strip (lookup_continent iso3_to_cont
        (get_column df code_col ! i)) = [] \<and> ''Entity'' \<in> set (map fst df))"
      by auto
    moreover from False have "final_region df code_col mapping_text iso3_to_cont = ?region"
      by (auto simp: final_region_def Let_def)
    ultimately show ?thesis
      using that codes by auto
  qed
qed

text \<open>
  Claim C6, amended. For an input frame of \<open>n\<close> rows that has no column named
  \<open>Region\<close>, a run that reaches the final write gives the frame its columns
  unchanged and in their order, followed by one new column \<open>Region\<close> with \<open>n\<close>
  values, one for each row: the name found for the row's \<open>Entity\<close> when the lookup
  by code found nothing and the frame has the column, the result of the lookup by code
  otherwise. In particular a row for which neither finds a region is kept, with the
  empty string.
\<close>

theorem main_appends_region_column:
  assumes "main (Some df) primary fallback = Inr out"
    and "wf_dataframe n df"
    and "''Region'' \<notin> set (map fst df)"
  shows "\<exists>code_col mapping_text iso3_to_cont region.
           detect_code_col df = Some code_col \<and>
           download_mapping primary fallback = Some mapping_text \<and>
           build_iso3_to_continent_map mapping_text = Inr iso3_to_cont \<and>
           out = df @ [(''Region'', map Val region)] \<and>
           length region = n \<and>
           (\<forall>i<n. region ! i =
              (if py_strip (lookup_continent iso3_to_cont (get_column df code_col ! i)) = [] \<and>
                  ''Entity'' \<in> set (map fst df)
               then try_by_name (build_name_to_cont (records mapping_text))
                      (get_column df ''Entity'' ! i)
               else lookup_continent iso3_to_cont (get_column df code_col ! i))) \<and>
           (\<forall>i<n. lookup_continent iso3_to_cont (get_column df code_col ! i) = [] \<and>
                   (''Entity'' \<in> set (map fst df) \<longrightarrow>
                      try_by_name (build_name_to_cont (records mapping_text))
                        (get_column df ''Entity'' ! i) = []) \<longrightarrow>
                   region ! i = [])"
proof -
  from assms(1) obtain code_col mapping_text iso3_to_cont where
    found: "detect_code_col df = Some code_col"
      "download_mapping primary fallback = Some mapping_text"
      "build_iso3_to_continent_map mapping_text = Inr iso3_to_cont"
    and written: "out = set_column df ''Region''
                (map Val (final_region df code_col mapping_text iso3_to_cont))"
    by (rule main_sets_region)
  let ?region = "final_region df code_col mapping_text iso3_to_cont"
  from found(1) have column: "code_col \<in> set (map fst df)"
    by (rule detect_code_col_is_column)
  from written assms(3) have appended: "out = df @ [(''Region'', map Val ?region)]"
    by (simp add: set_column_def)
  have rows: "length ?region = n"
    using assms(2) column by (rule final_region_rows)
  have cells: "\<forall>i<n. ?region ! i =
      (if py_strip (lookup_continent iso3_to_cont (get_column df code_col ! i)) = [] \<and>
          ''Entity'' \<in> set (map fst df)
       then try_by_name (build_name_to_cont (records mapping_text))
              (get_column df ''Entity'' ! i)
       else lookup_continent iso3_to_cont (get_column df code_col ! i))"
    using final_region_rows(2) [OF assms(2) column] by blast
  then have unresolved: "\<forall>i<n. lookup_continent iso3_to_cont (get_column df code_col ! i) = [] \<and>
      (''Entity'' \<in> set (map fst df) \<longrightarrow>
         try_by_name (build_name_to_cont (records mapping_text))
           (get_column df ''Entity'' ! i) = []) \<longrightarrow>
      ?region ! i = []"
    by (simp add: py_strip_def)
  from found appended rows cells unresolved show ?thesis
    by blast
qed

text \<open>
  A frame of three rows: a region found by code, one found by name, and none for the
  last row, which stays, with an empty \<open>Region\<close>.
\<close>

theorem main_appends_region_column_witness:
  "wf_dataframe 3 [(''Entity'', [Val ''France'', Val ''United States'', Val ''Atlantis'']),
                   (''Code'', [Val ''fra'', Val ''XXX'', NaN])] \<and>
   main (Some [(''Entity'', [Val ''France'', Val ''United States'', Val ''Atlantis'']),
               (''Code'', [Val ''fra'', Val ''XXX'', NaN])])
     (Some \<lparr>sniffed_header = [''Continent_Name'', ''Country_Name'', ''Three_Letter_Country_Code''],
            records = [[''Continent_Name'', ''Country_Name'', ''Three_Letter_Country_Code''],
                       [''North America'', ''United States of America'', ''USA''],
                       [''Europe'', ''France'', ''FRA'']]\<rparr>)
     None =
   Inr ([(''Entity'', [Val ''France'', Val ''United States'', Val ''Atlantis'']),
         (''Code'', [Val ''fra'', Val ''XXX'', NaN])] @
        [(''Region'', [Val ''Europe'', Val ''North America'', Val []])]) \<and>
   (\<exists>region.
      [(''Entity'', [Val ''France'', Val ''United States'', Val ''Atlantis'']),
       (''Code'', [Val ''fra'', Val ''XXX'', NaN]),
       (''Region'', [Val ''Europe'', Val ''North America'', Val []])] =
      [(''Entity'', [Val ''France'', Val ''United States'', Val ''Atlantis'']),
       (''Code'', [Val ''fra'', Val ''XXX'', NaN])] @ [(''Region'', map Val region)] \<and>
      length region = 3)"
proof -
  let ?df = "[(''Entity'', [Val ''France'', Val ''United States'', Val ''Atlantis'']),
              (''Code'', [Val ''fra'', Val ''XXX'', NaN])]"
  have wf: "wf_dataframe 3 ?df"
    by (simp add: wf_dataframe_def)
  have fresh: "''Region'' \<notin> set (map fst ?df)"
    by simp
  have run: "main (Some ?df)
     (Some \<lparr>sniffed_header = [''Continent_Name'', ''Country_Name'', ''Three_Letter_Country_Code''],
            records = [[''Continent_Name'', ''Country_Name'', ''Three_Letter_Country_Code''],
                       [''North America'', ''United States of America'', ''USA''],
                       [''Europe'', ''France'', ''FRA'']]\<rparr>)
     None =
   Inr [(''Entity'', [Val ''France'', Val ''United States'', Val ''Atlantis'']),
        (''Code'', [Val ''fra'', Val ''XXX'', NaN]),
        (''Region'', [Val ''Europe'', Val ''North America'', Val []])]"
    by code_simp
  from main_appends_region_column [OF run wf fresh]
  have "\<exists>region.
      [(''Entity'', [Val ''France'', Val ''United States'', Val ''Atlantis'']),
       (''Code'', [Val ''fra'', Val ''XXX'', NaN]),
       (''Region'', [Val ''Europe'', Val ''North America'', Val []])] =
      ?df @ [(''Region'', map Val region)] \<and> length region = 3"
    by blast
  with run wf show ?thesis
    by simp
qed

end
